theory Spec2Isabelle
  imports Main
begin

section \<open>Go strings\<close>

text \<open>
  A Go \<open>string\<close> is a sequence of bytes; it is modelled as \<^typ>\<open>string\<close>, a list of
  8-bit characters. The functions of package \<open>strings\<close> that the sources call are
  written out below, on bytes.
\<close>

text \<open>\<open>strings.HasSuffix(s, suffix)\<close>: \<open>len(s) >= len(suffix) && s[len(s)-len(suffix):] == suffix\<close>.\<close>

definition HasSuffix :: "string \<Rightarrow> string \<Rightarrow> bool" where
  "HasSuffix s suffix =
     (length suffix \<le> length s \<and> drop (length s - length suffix) s = suffix)"

text \<open>\<open>strings.TrimSuffix(s, suffix)\<close>: \<open>s\<close> without the trailing \<open>suffix\<close>, or \<open>s\<close> itself.\<close>

definition TrimSuffix :: "string \<Rightarrow> string \<Rightarrow> string" where
  "TrimSuffix s suffix =
     (if HasSuffix s suffix then take (length s - length suffix) s else s)"

text \<open>\<open>strings.HasPrefix(s, prefix)\<close>: \<open>len(s) >= len(prefix) && s[:len(prefix)] == prefix\<close>.\<close>

definition HasPrefix :: "string \<Rightarrow> string \<Rightarrow> bool" where
  "HasPrefix s prefix =
     (length prefix \<le> length s \<and> take (length prefix) s = prefix)"

text \<open>\<open>strings.TrimPrefix(s, prefix)\<close>: \<open>s\<close> without the leading \<open>prefix\<close>, or \<open>s\<close> itself.\<close>

definition TrimPrefix :: "string \<Rightarrow> string \<Rightarrow> string" where
  "TrimPrefix s prefix =
     (if HasPrefix s prefix then drop (length prefix) s else s)"

text \<open>
  \<open>strings.ToLower\<close>. A string of ASCII bytes is lowered byte by byte: a byte from
  \<open>'A'\<close> (65) to \<open>'Z'\<close> (90) is moved up by \<open>'a' - 'A'\<close> (32), any other byte is kept.
  A string with a byte from 128 on is mapped rune by rune, and every byte that is not
  part of a valid UTF-8 encoding is written as the replacement character \<open>U+FFFD\<close>,
  the three bytes \<open>EF BF BD\<close>. The sources pass a string of one byte only
  (\<open>table.Name[:1]\<close>), in which a byte from 128 on stands alone and so is never a
  valid encoding; the second branch is written for the strings without a valid
  multi-byte encoding, which it treats as Go does, and decodes no rune.
\<close>

definition toLowerByte :: "char \<Rightarrow> char" where
  "toLowerByte c =
     (if 65 \<le> (of_char c :: nat) \<and> (of_char c :: nat) \<le> 90
      then char_of ((of_char c :: nat) + 32)
      else c)"

definition RuneError :: string where
  "RuneError = [CHR 0xEF, CHR 0xBF, CHR 0xBD]"

definition ToLower :: "string \<Rightarrow> string" where
  "ToLower s =
     (if list_all (\<lambda>c. (of_char c :: nat) < 128) s then map toLowerByte s
      else concat (map (\<lambda>c. if (of_char c :: nat) < 128 then [toLowerByte c] else RuneError) s))"

text \<open>The upper-casing of an ASCII letter; any other byte is kept.\<close>

definition toUpperByte :: "char \<Rightarrow> char" where
  "toUpperByte c =
     (case map_of (zip ''abcdefghijklmnopqrstuvwxyz'' ''ABCDEFGHIJKLMNOPQRSTUVWXYZ'') c of
        None \<Rightarrow> c
      | Some u \<Rightarrow> u)"

text \<open>
  \<open>strings.Replace(s, old, new, -1)\<close> where \<open>old\<close> and \<open>new\<close> are one byte each, as in
  the only call of the sources (\<open>"_"\<close> by \<open>" "\<close>).
\<close>

definition ReplaceByte :: "string \<Rightarrow> char \<Rightarrow> char \<Rightarrow> string" where
  "ReplaceByte s old new = map (\<lambda>c. if c = old then new else c) s"

text \<open>
  The run-time panics of the relationship texts: a slice expression out of range, and
  a lookup by name that finds nothing.
\<close>

datatype panic =
    SliceBoundsOutOfRange
  | CouldNotFindColumn string
  | CouldNotFindTable string

text \<open>The slice expression \<open>s[:n]\<close>, which panics when \<open>n > len(s)\<close>.\<close>

definition sliceTo :: "string \<Rightarrow> nat \<Rightarrow> panic + string" where
  "sliceTo s n = (if n \<le> length s then Inr (take n s) else Inl SliceBoundsOutOfRange)"

section \<open>Package strmangle\<close>

text \<open>
  The inflection utility (\<open>strmangle.TitleCase\<close>, \<open>CamelCase\<close>, \<open>Singular\<close>,
  \<open>Plural\<close>) is not among the sources at hand. The functions that call it take it
  as a parameter, a record of the four string transformations, so that what is proved
  of them in general holds whatever the utility computes.
\<close>

record strmangle =
  TitleCase :: "string \<Rightarrow> string"
  CamelCase :: "string \<Rightarrow> string"
  Singular :: "string \<Rightarrow> string"
  Plural :: "string \<Rightarrow> string"

text \<open>
  Modelled from the spec: the title-case and camel-case forms of an identifier
  (\<open>strmangle.TitleCase\<close>, \<open>strmangle.CamelCase\<close>, missing from the sources). The
  identifier is cut at every underscore and the pieces are joined, each with its first
  letter in upper case; camel case leaves the first piece as it is.
\<close>

fun joinWords :: "bool \<Rightarrow> string \<Rightarrow> string" where
  "joinWords up [] = []"
| "joinWords up (c # cs) =
     (if c = CHR ''_'' then joinWords True cs
      else (if up then toUpperByte c else c) # joinWords False cs)"

definition titleCase :: "string \<Rightarrow> string" where
  "titleCase name = joinWords True name"

definition camelCase :: "string \<Rightarrow> string" where
  "camelCase name = joinWords False name"

text \<open>
  Modelled from the spec: the singular and plural forms of an identifier
  (\<open>strmangle.Singular\<close>, \<open>strmangle.Plural\<close>, missing from the sources; the spec
  names the pluralization rules an external collaborator and gives none). Only the
  regular English rule is written: the plural ends in \<open>s\<close>, the singular drops it.
\<close>

definition singular :: "string \<Rightarrow> string" where
  "singular name = TrimSuffix name ''s''"

definition plural :: "string \<Rightarrow> string" where
  "plural name = (if HasSuffix name ''s'' then name else name @ ''s'')"

definition inflection :: strmangle where
  "inflection =
     \<lparr>TitleCase = titleCase, CamelCase = camelCase, Singular = singular, Plural = plural\<rparr>"

section \<open>Naming of relationship functions\<close>

text \<open>
  \<open>mkFunctionName\<close>: the foreign key's column without its \<open>_id\<close> suffix is compared
  with the singular table name; when they agree, or for a join table, the name is the
  plural of the foreign table, otherwise the title-cased column is put in front of it.
\<close>

definition mkFunctionName :: "strmangle \<Rightarrow> string \<Rightarrow> string \<Rightarrow> string \<Rightarrow> bool \<Rightarrow> string" where
  "mkFunctionName sm fkeyTableSingular foreignTablePluralGo fkeyColumn toJoinTable =
     (let colName = TrimSuffix fkeyColumn ''_id'' in
      if toJoinTable \<or> fkeyTableSingular = colName then foreignTablePluralGo
      else TitleCase sm colName @ foreignTablePluralGo)"

section \<open>The schema model (package bdb)\<close>

text \<open>
  Modelled from the spec: the structs of package \<open>bdb\<close> (\<open>Column\<close>, \<open>PrimaryKey\<close>,
  \<open>ForeignKey\<close>, \<open>Table\<close>, \<open>ToManyRelationship\<close>), whose declarations are missing
  from the sources. The fields are those of the data model, under the names by which
  the driver and the relationship texts read and write them.
\<close>

record Column =
  Name :: string
  Type :: string
  DBType :: string
  Default :: string
  Nullable :: bool
  Unique :: bool
  Validated :: bool

record PrimaryKey =
  Name :: string
  Columns :: "string list"

record ForeignKey =
  Table :: string
  Name :: string
  Column :: string
  Nullable :: bool
  Unique :: bool
  ForeignTable :: string
  ForeignColumn :: string
  ForeignColumnNullable :: bool
  ForeignColumnUnique :: bool

record Table =
  Name :: string
  Columns :: "Column list"
  PKey :: "PrimaryKey option"
  FKeys :: "ForeignKey list"

record ToManyRelationship =
  Table :: string
  Column :: string
  Nullable :: bool
  Unique :: bool
  ForeignTable :: string
  ForeignColumn :: string
  ForeignColumnNullable :: bool
  ForeignColumnUnique :: bool
  ToJoinTable :: bool
  JoinLocalColumn :: string

text \<open>
  Modelled from the spec: the lookup of a column by name within a table
  (\<open>bdb.Table.GetColumn\<close>, missing from the sources). Names are unique within a
  table, so the first column of that name is the one. The callers use the result as a
  column, with no error to test: a lookup that finds nothing has no value to give them,
  which is \<open>None\<close> here and a panic in the callers.
\<close>

definition GetColumn :: "Table \<Rightarrow> string \<Rightarrow> Column option" where
  "GetColumn t name = find (\<lambda>c. Column.Name c = name) (Table.Columns t)"

text \<open>
  Modelled from the spec: the lookup of a table by name in the schema graph
  (\<open>bdb.GetTable\<close>, missing from the sources), in the same way.
\<close>

definition GetTable :: "Table list \<Rightarrow> string \<Rightarrow> Table option" where
  "GetTable tables name = find (\<lambda>t. Table.Name t = name) tables"

section \<open>The Postgres driver\<close>

subsection \<open>Type translation\<close>

text \<open>
  \<open>TranslateColumnType\<close>: two \<open>switch\<close> statements over the native type, one for
  nullable columns and one for the others; the first case that lists the type sets
  the field \<open>Type\<close>, and \<open>default\<close> takes every other type.
\<close>

definition TranslateColumnType :: "Column \<Rightarrow> Column" where
  "TranslateColumnType c =
     (if Column.Nullable c then
        (if DBType c \<in> set [''bigint'', ''bigserial''] then c\<lparr>Column.Type := ''null.Int64''\<rparr>
         else if DBType c \<in> set [''integer'', ''serial''] then c\<lparr>Column.Type := ''null.Int''\<rparr>
         else if DBType c \<in> set [''smallint'', ''smallserial''] then c\<lparr>Column.Type := ''null.Int16''\<rparr>
         else if DBType c \<in> set [''decimal'', ''numeric'', ''double precision'', ''money'']
           then c\<lparr>Column.Type := ''null.Float64''\<rparr>
         else if DBType c \<in> set [''real''] then c\<lparr>Column.Type := ''null.Float32''\<rparr>
         else if DBType c \<in> set [''bit'', ''interval'', ''bit varying'', ''character'',
             ''character varying'', ''cidr'', ''inet'', ''json'', ''macaddr'', ''text'', ''uuid'', ''xml'']
           then c\<lparr>Column.Type := ''null.String''\<rparr>
         else if DBType c \<in> set [''bytea''] then c\<lparr>Column.Type := ''[]byte''\<rparr>
         else if DBType c \<in> set [''boolean''] then c\<lparr>Column.Type := ''null.Bool''\<rparr>
         else if DBType c \<in> set [''date'', ''time'', ''timestamp without time zone'',
             ''timestamp with time zone'']
           then c\<lparr>Column.Type := ''null.Time''\<rparr>
         else c\<lparr>Column.Type := ''null.String''\<rparr>)
      else
        (if DBType c \<in> set [''bigint'', ''bigserial''] then c\<lparr>Column.Type := ''int64''\<rparr>
         else if DBType c \<in> set [''integer'', ''serial''] then c\<lparr>Column.Type := ''int''\<rparr>
         else if DBType c \<in> set [''smallint'', ''smallserial''] then c\<lparr>Column.Type := ''int16''\<rparr>
         else if DBType c \<in> set [''decimal'', ''numeric'', ''double precision'', ''money'']
           then c\<lparr>Column.Type := ''float64''\<rparr>
         else if DBType c \<in> set [''real''] then c\<lparr>Column.Type := ''float32''\<rparr>
         else if DBType c \<in> set [''bit'', ''interval'', ''uuint'', ''bit varying'', ''character'',
             ''character varying'', ''cidr'', ''inet'', ''json'', ''macaddr'', ''text'', ''uuid'', ''xml'']
           then c\<lparr>Column.Type := ''string''\<rparr>
         else if DBType c \<in> set [''bytea''] then c\<lparr>Column.Type := ''[]byte''\<rparr>
         else if DBType c \<in> set [''boolean''] then c\<lparr>Column.Type := ''bool''\<rparr>
         else if DBType c \<in> set [''date'', ''time'', ''timestamp without time zone'',
             ''timestamp with time zone'']
           then c\<lparr>Column.Type := ''time.Time''\<rparr>
         else c\<lparr>Column.Type := ''string''\<rparr>))"

text \<open>
  The native types that the cases of the two \<open>switch\<close> statements list, in the order
  of the source: the mapping table for nullable columns and the one for the others
  (which also lists \<open>uuint\<close>).
\<close>

definition nullableCases :: "string list" where
  "nullableCases =
     [''bigint'', ''bigserial'', ''integer'', ''serial'', ''smallint'', ''smallserial'',
      ''decimal'', ''numeric'', ''double precision'', ''money'', ''real'',
      ''bit'', ''interval'', ''bit varying'', ''character'', ''character varying'', ''cidr'',
      ''inet'', ''json'', ''macaddr'', ''text'', ''uuid'', ''xml'',
      ''bytea'', ''boolean'',
      ''date'', ''time'', ''timestamp without time zone'', ''timestamp with time zone'']"

definition bareCases :: "string list" where
  "bareCases =
     [''bigint'', ''bigserial'', ''integer'', ''serial'', ''smallint'', ''smallserial'',
      ''decimal'', ''numeric'', ''double precision'', ''money'', ''real'',
      ''bit'', ''interval'', ''uuint'', ''bit varying'', ''character'', ''character varying'',
      ''cidr'', ''inet'', ''json'', ''macaddr'', ''text'', ''uuid'', ''xml'',
      ''bytea'', ''boolean'',
      ''date'', ''time'', ''timestamp without time zone'', ''timestamp with time zone'']"

subsection \<open>The catalog queries\<close>

text \<open>
  The values of Go's type \<open>error\<close> that the driver returns: \<open>sql.ErrNoRows\<close>, any
  other failure of the connection or of a scan, and an error wrapped with a message by
  \<open>errors.Wrapf\<close>.
\<close>

datatype error =
    ErrNoRows
  | ErrDatabase string
  | Wrapf error string

text \<open>
  A result set of \<open>database/sql\<close>: the outcome of \<open>rows.Scan\<close> for each row that
  \<open>rows.Next()\<close> announces, in order, and the value of \<open>rows.Err()\<close> once \<open>Next\<close> has
  returned false.
\<close>

record 'row Rows =
  scanned :: "(error + 'row) list"
  Err :: "error option"

text \<open>
  A row of the column query: \<open>column_name\<close>, \<open>data_type\<close>, \<open>column_default\<close> (which the
  catalog may report as NULL, scanned into a pointer that is then nil), \<open>is_nullable\<close>
  and \<open>is_unique\<close>.
\<close>

record ColumnRow =
  column_name :: string
  data_type :: string
  column_default :: "string option"
  is_nullable :: string
  is_unique :: bool

text \<open>
  The connection handle \<open>dbConn\<close>, an opened \<open>*sql.DB\<close>, is the database seen through
  the queries that the driver sends: for each query and argument, what the call
  returns. \<open>QueryRowConstraintName\<close> is \<open>QueryRow(query, tableName).Scan(&pkey.Name)\<close>,
  whose error is \<open>sql.ErrNoRows\<close> when the query selects no row.
\<close>

record DB =
  QueryColumns :: "string \<Rightarrow> error + ColumnRow Rows"
  QueryRowConstraintName :: "string \<Rightarrow> error + string"
  QueryKeyColumns :: "string \<Rightarrow> error + string Rows"

record PostgresDriver =
  connStr :: string
  dbConn :: DB

definition validatedTypes :: "string list" where
  "validatedTypes = [''uuid'']"

fun isValidatedIn :: "string list \<Rightarrow> string \<Rightarrow> bool" where
  "isValidatedIn [] typ = False"
| "isValidatedIn (v # vs) typ = (if v = typ then True else isValidatedIn vs typ)"

definition isValidated :: "string \<Rightarrow> bool" where
  "isValidated typ = isValidatedIn validatedTypes typ"

text \<open>
  The body of the loop of \<open>Columns\<close>, after a successful scan: a nil \<open>defaultPtr\<close> gives
  the empty default, and the column is built from the scanned values.
\<close>

definition columnOfRow :: "ColumnRow \<Rightarrow> Column" where
  "columnOfRow r =
     (let colDefault = (case column_default r of None \<Rightarrow> '''' | Some d \<Rightarrow> d) in
      \<lparr>Column.Name = column_name r,
       Type = '''',
       DBType = data_type r,
       Default = colDefault,
       Nullable = (is_nullable r = ''YES''),
       Unique = is_unique r,
       Validated = isValidated (data_type r)\<rparr>)"

text \<open>
  The loop \<open>for rows.Next()\<close> of \<open>Columns\<close>: a failed scan returns the error, wrapped
  with the table name; otherwise the column is appended.
\<close>

fun scanColumns :: "string \<Rightarrow> (error + ColumnRow) list \<Rightarrow> Column list \<Rightarrow> error + Column list" where
  "scanColumns tableName [] columns = Inr columns"
| "scanColumns tableName (Inl err # rows) columns =
     Inl (Wrapf err (''unable to scan for table '' @ tableName))"
| "scanColumns tableName (Inr r # rows) columns =
     scanColumns tableName rows (columns @ [columnOfRow r])"

definition Columns :: "PostgresDriver \<Rightarrow> string \<Rightarrow> error + Column list" where
  "Columns p tableName =
     (case QueryColumns (dbConn p) tableName of
        Inl err \<Rightarrow> Inl err
      | Inr rows \<Rightarrow> scanColumns tableName (scanned rows) [])"

text \<open>The loop \<open>for rows.Next()\<close> of \<open>PrimaryKeyInfo\<close>, which returns a scan error as it is.\<close>

fun scanKeyColumns :: "(error + string) list \<Rightarrow> string list \<Rightarrow> error + string list" where
  "scanKeyColumns [] columns = Inr columns"
| "scanKeyColumns (Inl err # rows) columns = Inl err"
| "scanKeyColumns (Inr column # rows) columns = scanKeyColumns rows (columns @ [column])"

text \<open>
  \<open>PrimaryKeyInfo\<close> returns a pointer and an error: \<open>Inl err\<close> is \<open>(nil, err)\<close>,
  \<open>Inr None\<close> is \<open>(nil, nil)\<close> and \<open>Inr (Some pkey)\<close> is \<open>(pkey, nil)\<close>.
\<close>

definition PrimaryKeyInfo :: "PostgresDriver \<Rightarrow> string \<Rightarrow> error + PrimaryKey option" where
  "PrimaryKeyInfo p tableName =
     (case QueryRowConstraintName (dbConn p) tableName of
        Inl err \<Rightarrow> (if err = ErrNoRows then Inr None else Inl err)
      | Inr name \<Rightarrow>
          (case QueryKeyColumns (dbConn p) name of
             Inl err \<Rightarrow> Inl err
           | Inr rows \<Rightarrow>
               (case scanKeyColumns (scanned rows) [] of
                  Inl err \<Rightarrow> Inl err
                | Inr columns \<Rightarrow>
                    (case Err rows of
                       Some err \<Rightarrow> Inl err
                     | None \<Rightarrow> Inr (Some \<lparr>PrimaryKey.Name = name, PrimaryKey.Columns = columns\<rparr>)))))"

section \<open>Relationship texts\<close>

text \<open>
  \<open>RelationshipToOneTexts\<close> and its three anonymous structs, \<open>LocalTable\<close>,
  \<open>ForeignTable\<close> and \<open>Function\<close>.
\<close>

record ToOneLocalTable =
  NameGo :: string
  ColumnNameGo :: string

record ToOneForeignTable =
  NameGo :: string
  NamePluralGo :: string
  Name :: string
  ColumnNameGo :: string
  ColumnName :: string

record ToOneFunction =
  PackageName :: string
  Name :: string
  ForeignName :: string
  Varname :: string
  Receiver :: string
  OneToOne :: bool
  LocalAssignment :: string
  ForeignAssignment :: string

record RelationshipToOneTexts =
  ForeignKey :: ForeignKey
  LocalTable :: ToOneLocalTable
  ForeignTable :: ToOneForeignTable
  Function :: ToOneFunction

text \<open>
  \<open>textsFromForeignKey\<close>. The statements are evaluated in the order of the source: the
  slice \<open>table.Name[:1]\<close> of the receiver first, then the lookup of the local column
  when the key is nullable, then the lookups of the foreign table and its column when
  the foreign column is nullable. The first of them that panics ends the call.
\<close>

definition textsFromForeignKey ::
  "strmangle \<Rightarrow> string \<Rightarrow> Table list \<Rightarrow> Table \<Rightarrow> ForeignKey \<Rightarrow> panic + RelationshipToOneTexts" where
  "textsFromForeignKey sm packageName tables table fkey =
     (let plurality = (if ForeignKey.Unique fkey then Singular sm else Plural sm) in
      case sliceTo (Table.Name table) 1 of
        Inl e \<Rightarrow> Inl e
      | Inr first \<Rightarrow>
      (case
         (if ForeignKey.Nullable fkey then
            (case GetColumn table (ForeignKey.Column fkey) of
               None \<Rightarrow> Inl (CouldNotFindColumn (ForeignKey.Column fkey))
             | Some col \<Rightarrow>
                 Inr (TitleCase sm (ForeignKey.Column fkey) @ ''.''
                      @ TrimPrefix (Column.Type col) ''null.''))
          else Inr (TitleCase sm (ForeignKey.Column fkey)))
       of
         Inl e \<Rightarrow> Inl e
       | Inr localAssignment \<Rightarrow>
       (case
          (if ForeignKey.ForeignColumnNullable fkey then
             (case GetTable tables (ForeignKey.ForeignTable fkey) of
                None \<Rightarrow> Inl (CouldNotFindTable (ForeignKey.ForeignTable fkey))
              | Some foreignTable \<Rightarrow>
                  (case GetColumn foreignTable (ForeignKey.ForeignColumn fkey) of
                     None \<Rightarrow> Inl (CouldNotFindColumn (ForeignKey.ForeignColumn fkey))
                   | Some col \<Rightarrow>
                       Inr (TitleCase sm (ForeignKey.ForeignColumn fkey) @ ''.''
                            @ TrimPrefix (Column.Type col) ''null.'')))
           else Inr (TitleCase sm (ForeignKey.ForeignColumn fkey)))
        of
          Inl e \<Rightarrow> Inl e
        | Inr foreignAssignment \<Rightarrow>
            Inr \<lparr>RelationshipToOneTexts.ForeignKey = fkey,
                 RelationshipToOneTexts.LocalTable =
                   \<lparr>ToOneLocalTable.NameGo = TitleCase sm (Singular sm (Table.Name table)),
                    ToOneLocalTable.ColumnNameGo =
                      TitleCase sm (Singular sm (ForeignKey.Column fkey))\<rparr>,
                 RelationshipToOneTexts.ForeignTable =
                   \<lparr>ToOneForeignTable.NameGo =
                      TitleCase sm (Singular sm (ForeignKey.ForeignTable fkey)),
                    ToOneForeignTable.NamePluralGo =
                      TitleCase sm (Plural sm (ForeignKey.ForeignTable fkey)),
                    ToOneForeignTable.Name = ForeignKey.ForeignTable fkey,
                    ToOneForeignTable.ColumnNameGo =
                      TitleCase sm (Singular sm (ForeignKey.ForeignColumn fkey)),
                    ToOneForeignTable.ColumnName = ForeignKey.ForeignColumn fkey\<rparr>,
                 RelationshipToOneTexts.Function =
                   \<lparr>ToOneFunction.PackageName = packageName,
                    ToOneFunction.Name =
                      TitleCase sm (Singular sm (TrimSuffix (ForeignKey.Column fkey) ''_id'')),
                    ToOneFunction.ForeignName =
                      mkFunctionName sm (Singular sm (ForeignKey.ForeignTable fkey))
                        (TitleCase sm (plurality (ForeignKey.Table fkey)))
                        (ForeignKey.Column fkey) False,
                    ToOneFunction.Varname =
                      CamelCase sm (Singular sm (ForeignKey.ForeignTable fkey)),
                    ToOneFunction.Receiver = ToLower first,
                    ToOneFunction.OneToOne = False,
                    ToOneFunction.LocalAssignment = localAssignment,
                    ToOneFunction.ForeignAssignment = foreignAssignment\<rparr>\<rparr>)))"

text \<open>
  \<open>RelationshipToManyTexts\<close> and its three anonymous structs.
\<close>

record ToManyLocalTable =
  NameGo :: string
  NameSingular :: string
  ColumnNameGo :: string

record ToManyForeignTable =
  NameGo :: string
  NameSingular :: string
  NamePluralGo :: string
  NameHumanReadable :: string
  ColumnNameGo :: string
  Slice :: string

record ToManyFunction =
  Name :: string
  ForeignName :: string
  Receiver :: string
  LocalAssignment :: string
  ForeignAssignment :: string

record RelationshipToManyTexts =
  LocalTable :: ToManyLocalTable
  ForeignTable :: ToManyForeignTable
  Function :: ToManyFunction

text \<open>
  \<open>textsFromRelationship\<close>, with the same order of evaluation: the slice of the
  receiver, the lookup of the local column when the relationship is nullable, the
  lookups of the foreign table and column when the foreign column is nullable.
\<close>

definition textsFromRelationship ::
  "strmangle \<Rightarrow> Table list \<Rightarrow> Table \<Rightarrow> ToManyRelationship \<Rightarrow> panic + RelationshipToManyTexts" where
  "textsFromRelationship sm tables table rel =
     (let localNameSingular = Singular sm (Table.Name table);
          foreignNameSingular = Singular sm (ToManyRelationship.ForeignTable rel);
          foreignNamePluralGo = TitleCase sm (Plural sm (ToManyRelationship.ForeignTable rel));
          plurality = (if ToJoinTable rel then Plural sm else Singular sm);
          foreignNamingColumn =
            (if ToJoinTable rel then JoinLocalColumn rel
             else ToManyRelationship.ForeignColumn rel)
      in
      case sliceTo (Table.Name table) 1 of
        Inl e \<Rightarrow> Inl e
      | Inr first \<Rightarrow>
      (case
         (if ToManyRelationship.Nullable rel then
            (case GetColumn table (ToManyRelationship.Column rel) of
               None \<Rightarrow> Inl (CouldNotFindColumn (ToManyRelationship.Column rel))
             | Some col \<Rightarrow>
                 Inr (TitleCase sm (ToManyRelationship.Column rel) @ ''.''
                      @ TrimPrefix (Column.Type col) ''null.''))
          else Inr (TitleCase sm (ToManyRelationship.Column rel)))
       of
         Inl e \<Rightarrow> Inl e
       | Inr localAssignment \<Rightarrow>
       (case
          (if ToManyRelationship.ForeignColumnNullable rel then
             (case GetTable tables (ToManyRelationship.ForeignTable rel) of
                None \<Rightarrow> Inl (CouldNotFindTable (ToManyRelationship.ForeignTable rel))
              | Some foreignTable \<Rightarrow>
                  (case GetColumn foreignTable (ToManyRelationship.ForeignColumn rel) of
                     None \<Rightarrow> Inl (CouldNotFindColumn (ToManyRelationship.ForeignColumn rel))
                   | Some col \<Rightarrow>
                       Inr (TitleCase sm (ToManyRelationship.ForeignColumn rel) @ ''.''
                            @ TrimPrefix (Column.Type col) ''null.'')))
           else Inr (TitleCase sm (ToManyRelationship.ForeignColumn rel)))
        of
          Inl e \<Rightarrow> Inl e
        | Inr foreignAssignment \<Rightarrow>
            Inr \<lparr>RelationshipToManyTexts.LocalTable =
                   \<lparr>ToManyLocalTable.NameGo = TitleCase sm localNameSingular,
                    ToManyLocalTable.NameSingular = localNameSingular,
                    ToManyLocalTable.ColumnNameGo =
                      TitleCase sm (ToManyRelationship.Column rel)\<rparr>,
                 RelationshipToManyTexts.ForeignTable =
                   \<lparr>ToManyForeignTable.NameGo = TitleCase sm foreignNameSingular,
                    ToManyForeignTable.NameSingular = foreignNameSingular,
                    ToManyForeignTable.NamePluralGo = foreignNamePluralGo,
                    ToManyForeignTable.NameHumanReadable =
                      ReplaceByte (ToManyRelationship.ForeignTable rel) CHR ''_'' CHR '' '',
                    ToManyForeignTable.ColumnNameGo =
                      TitleCase sm (ToManyRelationship.ForeignColumn rel),
                    ToManyForeignTable.Slice = TitleCase sm foreignNameSingular @ ''Slice''\<rparr>,
                 RelationshipToManyTexts.Function =
                   \<lparr>ToManyFunction.Name =
                      mkFunctionName sm localNameSingular foreignNamePluralGo
                        (ToManyRelationship.ForeignColumn rel) (ToJoinTable rel),
                    ToManyFunction.ForeignName =
                      TitleCase sm (plurality (TrimSuffix foreignNamingColumn ''_id'')),
                    ToManyFunction.Receiver = ToLower first,
                    ToManyFunction.LocalAssignment = localAssignment,
                    ToManyFunction.ForeignAssignment = foreignAssignment\<rparr>\<rparr>)))"

text \<open>
  The schema of the self-referencing example: a table \<open>employees\<close> with the columns
  \<open>id\<close> and \<open>manager_id\<close>, translated by \<open>TranslateColumnType\<close>, and the nullable
  foreign key from \<open>manager_id\<close> to \<open>employees.id\<close>.
\<close>

definition manager_fkey :: ForeignKey where
  "manager_fkey =
     \<lparr>ForeignKey.Table = ''employees'',
      ForeignKey.Name = ''employees_manager_id_fkey'',
      ForeignKey.Column = ''manager_id'',
      ForeignKey.Nullable = True,
      ForeignKey.Unique = False,
      ForeignKey.ForeignTable = ''employees'',
      ForeignKey.ForeignColumn = ''id'',
      ForeignKey.ForeignColumnNullable = False,
      ForeignKey.ForeignColumnUnique = True\<rparr>"

definition employees :: Table where
  "employees =
     \<lparr>Table.Name = ''employees'',
      Table.Columns =
        [TranslateColumnType
           \<lparr>Column.Name = ''id'', Type = '''', DBType = ''integer'', Default = '''',
            Nullable = False, Unique = True, Validated = False\<rparr>,
         TranslateColumnType
           \<lparr>Column.Name = ''manager_id'', Type = '''', DBType = ''integer'', Default = '''',
            Nullable = True, Unique = False, Validated = False\<rparr>],
      PKey = Some \<lparr>PrimaryKey.Name = ''employees_pkey'', PrimaryKey.Columns = [''id'']\<rparr>,
      FKeys = [manager_fkey]\<rparr>"

text \<open>
  The to-many side of that key, as the data model describes it: the rows of the source
  table (\<open>employees\<close>, through \<open>manager_id\<close>) that reference one row of the destination
  table (\<open>employees\<close>, by \<open>id\<close>); no join table is involved.
\<close>

definition manager_rel :: ToManyRelationship where
  "manager_rel =
     \<lparr>ToManyRelationship.Table = ''employees'',
      ToManyRelationship.Column = ''id'',
      ToManyRelationship.Nullable = False,
      ToManyRelationship.Unique = True,
      ToManyRelationship.ForeignTable = ''employees'',
      ToManyRelationship.ForeignColumn = ''manager_id'',
      ToManyRelationship.ForeignColumnNullable = True,
      ToManyRelationship.ForeignColumnUnique = False,
      ToJoinTable = False,
      JoinLocalColumn = ''''\<rparr>"

section \<open>Example schemas\<close>

text \<open>
  A column of a type that no case lists (\<open>hstore\<close>) and a column of type \<open>bytea\<close>, both
  nullable.
\<close>

definition hstore_column :: Column where
  "hstore_column =
     \<lparr>Column.Name = ''tags'', Type = '''', DBType = ''hstore'', Default = '''',
      Nullable = True, Unique = False, Validated = False\<rparr>"

definition bytea_column :: Column where
  "bytea_column =
     \<lparr>Column.Name = ''payload'', Type = '''', DBType = ''bytea'', Default = '''',
      Nullable = True, Unique = False, Validated = False\<rparr>"

text \<open>
  A database with one table, \<open>pilots\<close>: the column \<open>id\<close> has a default expression,
  the column \<open>name\<close> has none, and the primary key is \<open>id\<close>. Any other table name has
  no column and no primary-key constraint.
\<close>

definition pilots_rows :: "ColumnRow list" where
  "pilots_rows =
     [\<lparr>column_name = ''id'', data_type = ''integer'',
       column_default = Some ''nextval(pilots_id_seq)'',
       is_nullable = ''NO'', is_unique = False\<rparr>,
      \<lparr>column_name = ''name'', data_type = ''text'',
       column_default = None,
       is_nullable = ''YES'', is_unique = False\<rparr>]"

definition pilots_db :: DB where
  "pilots_db =
     \<lparr>QueryColumns =
        (\<lambda>t. if t = ''pilots'' then Inr \<lparr>scanned = map Inr pilots_rows, Err = None\<rparr>
             else Inr \<lparr>scanned = [], Err = None\<rparr>),
      QueryRowConstraintName =
        (\<lambda>t. if t = ''pilots'' then Inr ''pilots_pkey'' else Inl ErrNoRows),
      QueryKeyColumns =
        (\<lambda>n. if n = ''pilots_pkey'' then Inr \<lparr>scanned = [Inr ''id''], Err = None\<rparr>
             else Inr \<lparr>scanned = [], Err = None\<rparr>)\<rparr>"

definition pilots_driver :: PostgresDriver where
  "pilots_driver = \<lparr>connStr = ''dbname=pilots'', dbConn = pilots_db\<rparr>"

text \<open>
  A schema with names outside lower-case ASCII: a table \<open>Shops\<close>, and a table whose
  name begins with the two bytes \<open>C3 A9\<close>, the UTF-8 encoding of the letter e with
  acute accent, followed by \<open>clairs\<close>. The second table has a foreign key that is not
  nullable, from its column \<open>shop_id\<close> to \<open>Shops.id\<close>; \<open>shops_rel\<close> is the to-many side
  of that key.
\<close>

definition eclairs_name :: string where
  "eclairs_name = [CHR 0xC3, CHR 0xA9] @ ''clairs''"

definition eclairs_fkey :: ForeignKey where
  "eclairs_fkey =
     \<lparr>ForeignKey.Table = eclairs_name,
      ForeignKey.Name = ''eclairs_shop_id_fkey'',
      ForeignKey.Column = ''shop_id'',
      ForeignKey.Nullable = False,
      ForeignKey.Unique = False,
      ForeignKey.ForeignTable = ''Shops'',
      ForeignKey.ForeignColumn = ''id'',
      ForeignKey.ForeignColumnNullable = False,
      ForeignKey.ForeignColumnUnique = True\<rparr>"

definition eclairs :: Table where
  "eclairs =
     \<lparr>Table.Name = eclairs_name,
      Table.Columns =
        [TranslateColumnType
           \<lparr>Column.Name = ''id'', Type = '''', DBType = ''integer'', Default = '''',
            Nullable = False, Unique = True, Validated = False\<rparr>,
         TranslateColumnType
           \<lparr>Column.Name = ''shop_id'', Type = '''', DBType = ''integer'', Default = '''',
            Nullable = False, Unique = False, Validated = False\<rparr>],
      PKey = Some \<lparr>PrimaryKey.Name = ''eclairs_pkey'', PrimaryKey.Columns = [''id'']\<rparr>,
      FKeys = [eclairs_fkey]\<rparr>"

definition shops :: Table where
  "shops =
     \<lparr>Table.Name = ''Shops'',
      Table.Columns =
        [TranslateColumnType
           \<lparr>Column.Name = ''id'', Type = '''', DBType = ''integer'', Default = '''',
            Nullable = False, Unique = True, Validated = False\<rparr>],
      PKey = Some \<lparr>PrimaryKey.Name = ''Shops_pkey'', PrimaryKey.Columns = [''id'']\<rparr>,
      FKeys = []\<rparr>"

definition shops_rel :: ToManyRelationship where
  "shops_rel =
     \<lparr>ToManyRelationship.Table = ''Shops'',
      ToManyRelationship.Column = ''id'',
      ToManyRelationship.Nullable = False,
      ToManyRelationship.Unique = True,
      ToManyRelationship.ForeignTable = eclairs_name,
      ToManyRelationship.ForeignColumn = ''shop_id'',
      ToManyRelationship.ForeignColumnNullable = False,
      ToManyRelationship.ForeignColumnUnique = False,
      ToJoinTable = False,
      JoinLocalColumn = ''''\<rparr>"

section \<open>Properties of the naming\<close>

lemma TrimSuffix_billing: "TrimSuffix ''billing_customer_id'' ''_id'' = ''billing_customer''"
  by (simp add: TrimSuffix_def HasSuffix_def)

lemma TrimSuffix_customer: "TrimSuffix ''customer_id'' ''_id'' = ''customer''"
  by (simp add: TrimSuffix_def HasSuffix_def)

lemma titleCase_customer: "titleCase ''customer'' = ''Customer''"
  by (simp add: titleCase_def toUpperByte_def)

lemma titleCase_billing_customer: "titleCase ''billing_customer'' = ''BillingCustomer''"
  by (simp add: titleCase_def toUpperByte_def)

text \<open>
  Claim C1, as stated: on the table \<open>invoice\<close> the column \<open>billing_customer_id\<close> gives
  \<open>BillingCustomers\<close> and the column \<open>customer_id\<close> gives \<open>Customers\<close>. It fails: neither
  column, without its suffix, is the name \<open>invoice\<close>, so both names get the title-cased
  column in front.
\<close>

theorem mkFunctionName_invoice_counterexample:
  "\<not> (mkFunctionName inflection ''invoice'' ''Customers'' ''billing_customer_id'' False
        = ''BillingCustomers'' \<and>
      mkFunctionName inflection ''invoice'' ''Customers'' ''customer_id'' False
        = ''Customers'')"
  by (simp add: mkFunctionName_def TrimSuffix_customer TrimSuffix_billing inflection_def
      titleCase_customer titleCase_billing_customer)

text \<open>
  Claim C1, amended. Whatever the title-casing is, the two names are the title-cased
  column without its suffix followed by \<open>Customers\<close>: \<open>BillingCustomerCustomers\<close> and
  \<open>CustomerCustomers\<close>.
\<close>

theorem mkFunctionName_invoice:
  "mkFunctionName sm ''invoice'' ''Customers'' ''billing_customer_id'' False
     = TitleCase sm ''billing_customer'' @ ''Customers'' \<and>
   mkFunctionName sm ''invoice'' ''Customers'' ''customer_id'' False
     = TitleCase sm ''customer'' @ ''Customers'' \<and>
   mkFunctionName inflection ''invoice'' ''Customers'' ''billing_customer_id'' False
     = ''BillingCustomerCustomers'' \<and>
   mkFunctionName inflection ''invoice'' ''Customers'' ''customer_id'' False
     = ''CustomerCustomers''"
  by (simp add: mkFunctionName_def TrimSuffix_customer TrimSuffix_billing inflection_def
      titleCase_customer titleCase_billing_customer)

text \<open>
  Claim C3. With the join-table flag set, \<open>mkFunctionName\<close> returns the plural foreign
  name whatever the column is; with the flag unset it returns the plural foreign name
  whenever the column without its \<open>_id\<close> suffix equals the singular table name.
\<close>

theorem mkFunctionName_obvious:
  "mkFunctionName sm s p c True = p \<and>
   (TrimSuffix c ''_id'' = s \<longrightarrow> mkFunctionName sm s p c False = p)"
  by (simp add: mkFunctionName_def)

theorem mkFunctionName_obvious_witness:
  "mkFunctionName inflection ''customer'' ''Customers'' ''customer_id'' True = ''Customers'' \<and>
   TrimSuffix ''customer_id'' ''_id'' = ''customer'' \<and>
   mkFunctionName inflection ''customer'' ''Customers'' ''customer_id'' False = ''Customers''"
  using mkFunctionName_obvious [of inflection "''customer''" "''Customers''" "''customer_id''"]
  by (simp add: TrimSuffix_customer)

section \<open>Properties of the type translation\<close>

text \<open>
  Claim C2, as stated: a nullable column and a non-nullable column of the same native
  type never get the same semantic type, the two kinds of semantic types being
  disjoint. It fails for \<open>bytea\<close>, which both \<open>switch\<close> statements map to \<open>[]byte\<close>.
\<close>

theorem TranslateColumnType_bytea_counterexample:
  "\<not> (Column.Type (TranslateColumnType (bytea_column\<lparr>Column.Nullable := True\<rparr>)) \<noteq>
      Column.Type (TranslateColumnType (bytea_column\<lparr>Column.Nullable := False\<rparr>)))"
  by (simp add: bytea_column_def TranslateColumnType_def)

text \<open>
  Claim C2, amended. The semantic types of nullable columns and those of non-nullable
  columns are disjoint but for \<open>[]byte\<close>: a nullable column and a non-nullable column,
  of any native types, get different semantic types unless both are of native type
  \<open>bytea\<close>, and then both get \<open>[]byte\<close>. In particular, for every native type other
  than \<open>bytea\<close>, the semantic type of a nullable column differs from that of a
  non-nullable column of the same native type.
\<close>

theorem TranslateColumnType_nullability:
  "Column.Nullable c \<Longrightarrow> \<not> Column.Nullable d \<Longrightarrow>
   (DBType c \<noteq> ''bytea'' \<or> DBType d \<noteq> ''bytea'' \<longrightarrow>
      Column.Type (TranslateColumnType c) \<noteq> Column.Type (TranslateColumnType d)) \<and>
   (DBType c = DBType d \<longrightarrow> DBType c \<noteq> ''bytea'' \<longrightarrow>
      Column.Type (TranslateColumnType c) \<noteq> Column.Type (TranslateColumnType d)) \<and>
   (DBType c = ''bytea'' \<and> DBType d = ''bytea'' \<longrightarrow>
      Column.Type (TranslateColumnType c) = ''[]byte'' \<and>
      Column.Type (TranslateColumnType d) = ''[]byte'')"
proof (intro conjI impI)
  assume n: "Column.Nullable c" "\<not> Column.Nullable d"
  show "Column.Type (TranslateColumnType c) \<noteq> Column.Type (TranslateColumnType d)"
    if "DBType c \<noteq> ''bytea'' \<or> DBType d \<noteq> ''bytea''"
    using that n by (simp add: TranslateColumnType_def)
  then show "Column.Type (TranslateColumnType c) \<noteq> Column.Type (TranslateColumnType d)"
    if "DBType c = DBType d" "DBType c \<noteq> ''bytea''"
    using that by simp
  show "Column.Type (TranslateColumnType c) = ''[]byte''"
    if "DBType c = ''bytea'' \<and> DBType d = ''bytea''"
    using that n by (simp add: TranslateColumnType_def)
  show "Column.Type (TranslateColumnType d) = ''[]byte''"
    if "DBType c = ''bytea'' \<and> DBType d = ''bytea''"
    using that n by (simp add: TranslateColumnType_def)
qed

theorem TranslateColumnType_nullability_witness:
  "Column.Nullable hstore_column \<and>
   \<not> Column.Nullable (hstore_column\<lparr>Column.Nullable := False\<rparr>) \<and>
   \<not> Column.Nullable (bytea_column\<lparr>Column.Nullable := False\<rparr>) \<and>
   DBType hstore_column \<noteq> ''bytea'' \<and>
   Column.Type (TranslateColumnType hstore_column) \<noteq>
     Column.Type (TranslateColumnType (hstore_column\<lparr>Column.Nullable := False\<rparr>)) \<and>
   Column.Type (TranslateColumnType hstore_column) \<noteq>
     Column.Type (TranslateColumnType (bytea_column\<lparr>Column.Nullable := False\<rparr>)) \<and>
   Column.Type (TranslateColumnType bytea_column) \<noteq>
     Column.Type (TranslateColumnType (hstore_column\<lparr>Column.Nullable := False\<rparr>)) \<and>
   Column.Nullable bytea_column \<and>
   DBType bytea_column = ''bytea'' \<and>
   DBType (bytea_column\<lparr>Column.Nullable := False\<rparr>) = ''bytea'' \<and>
   Column.Type (TranslateColumnType bytea_column) = ''[]byte'' \<and>
   Column.Type (TranslateColumnType (bytea_column\<lparr>Column.Nullable := False\<rparr>)) = ''[]byte''"
  using TranslateColumnType_nullability
      [of hstore_column "hstore_column\<lparr>Column.Nullable := False\<rparr>"]
    TranslateColumnType_nullability
      [of hstore_column "bytea_column\<lparr>Column.Nullable := False\<rparr>"]
    TranslateColumnType_nullability
      [of bytea_column "hstore_column\<lparr>Column.Nullable := False\<rparr>"]
    TranslateColumnType_nullability
      [of bytea_column "bytea_column\<lparr>Column.Nullable := False\<rparr>"]
  by (simp add: hstore_column_def bytea_column_def)

text \<open>
  Claim C4. \<open>TranslateColumnType\<close> returns a column for every input, and the column's
  \<open>Type\<close> is set (it is not the empty string). A native type that no case of the
  \<open>switch\<close> lists gets \<open>null.String\<close> on a nullable column and \<open>string\<close> on any other.
\<close>

theorem TranslateColumnType_total:
  "Column.Type (TranslateColumnType c) \<noteq> [] \<and>
   (DBType c \<notin> set nullableCases \<longrightarrow> Column.Nullable c \<longrightarrow>
      Column.Type (TranslateColumnType c) = ''null.String'') \<and>
   (DBType c \<notin> set bareCases \<longrightarrow> \<not> Column.Nullable c \<longrightarrow>
      Column.Type (TranslateColumnType c) = ''string'')"
  by (simp add: TranslateColumnType_def nullableCases_def bareCases_def)

theorem TranslateColumnType_total_witness:
  "DBType hstore_column \<notin> set nullableCases \<and> Column.Nullable hstore_column \<and>
   Column.Type (TranslateColumnType hstore_column) = ''null.String'' \<and>
   DBType (hstore_column\<lparr>Column.Nullable := False\<rparr>) \<notin> set bareCases \<and>
   \<not> Column.Nullable (hstore_column\<lparr>Column.Nullable := False\<rparr>) \<and>
   Column.Type (TranslateColumnType (hstore_column\<lparr>Column.Nullable := False\<rparr>)) = ''string''"
  using TranslateColumnType_total [of hstore_column]
    TranslateColumnType_total [of "hstore_column\<lparr>Column.Nullable := False\<rparr>"]
  by (simp add: hstore_column_def nullableCases_def bareCases_def)

text \<open>
  Claim C9. \<open>TranslateColumnType\<close> changes the field \<open>Type\<close> only: the fields \<open>Name\<close>,
  \<open>DBType\<close>, \<open>Default\<close>, \<open>Nullable\<close>, \<open>Unique\<close> and \<open>Validated\<close> of the result are those
  of the argument, and the result is the argument with a new \<open>Type\<close>.
\<close>

theorem TranslateColumnType_frame:
  "Column.Name (TranslateColumnType c) = Column.Name c \<and>
   DBType (TranslateColumnType c) = DBType c \<and>
   Default (TranslateColumnType c) = Default c \<and>
   Column.Nullable (TranslateColumnType c) = Column.Nullable c \<and>
   Column.Unique (TranslateColumnType c) = Column.Unique c \<and>
   Validated (TranslateColumnType c) = Validated c \<and>
   TranslateColumnType c = c\<lparr>Column.Type := Column.Type (TranslateColumnType c)\<rparr>"
  by (simp add: TranslateColumnType_def)

section \<open>Properties of the catalog queries\<close>

text \<open>
  Claim C7. When the table has no primary-key constraint, so that the query for the
  constraint name selects no row and the scan reports \<open>sql.ErrNoRows\<close>,
  \<open>PrimaryKeyInfo\<close> returns no primary key and no error.
\<close>

theorem PrimaryKeyInfo_absent:
  "QueryRowConstraintName (dbConn p) tableName = Inl ErrNoRows \<Longrightarrow>
   PrimaryKeyInfo p tableName = Inr None"
  by (simp add: PrimaryKeyInfo_def)

theorem PrimaryKeyInfo_absent_witness:
  "QueryRowConstraintName (dbConn pilots_driver) ''logs'' = Inl ErrNoRows \<and>
   PrimaryKeyInfo pilots_driver ''logs'' = Inr None"
  using PrimaryKeyInfo_absent [of pilots_driver "''logs''"]
  by (simp add: pilots_driver_def pilots_db_def)

lemma scanColumns_all_scanned:
  "scanColumns tableName (map Inr rs) columns = Inr (columns @ map columnOfRow rs)"
  by (induction rs arbitrary: columns) simp_all

lemma Default_columnOfRow:
  "Default (columnOfRow r) = (case column_default r of None \<Rightarrow> '''' | Some d \<Rightarrow> d)"
  by (simp add: columnOfRow_def)

text \<open>
  Claim C8. When the column query succeeds and every row is scanned, \<open>Columns\<close> returns
  one column for each row, in order; the column's \<open>Default\<close> is the empty string where
  the catalog reports no default expression (NULL) and is the expression itself where
  there is one.
\<close>

theorem Columns_default:
  assumes "QueryColumns (dbConn p) tableName = Inr rows"
    and "scanned rows = map Inr rs"
  shows "\<exists>columns. Columns p tableName = Inr columns \<and> length columns = length rs \<and>
           (\<forall>i < length rs.
              (column_default (rs ! i) = None \<longrightarrow> Default (columns ! i) = '''') \<and>
              (\<forall>d. column_default (rs ! i) = Some d \<longrightarrow> Default (columns ! i) = d))"
proof -
  have "Columns p tableName = Inr (map columnOfRow rs)"
    using assms by (simp add: Columns_def scanColumns_all_scanned)
  moreover have "\<forall>i < length rs.
      (column_default (rs ! i) = None \<longrightarrow> Default (map columnOfRow rs ! i) = '''') \<and>
      (\<forall>d. column_default (rs ! i) = Some d \<longrightarrow> Default (map columnOfRow rs ! i) = d)"
    by (simp add: Default_columnOfRow)
  ultimately show ?thesis by simp
qed

theorem Columns_default_witness:
  "\<exists>columns. Columns pilots_driver ''pilots'' = Inr columns \<and> length columns = 2 \<and>
     Default (columns ! 0) = ''nextval(pilots_id_seq)'' \<and> Default (columns ! 1) = ''''"
proof -
  have q: "QueryColumns (dbConn pilots_driver) ''pilots'' =
      Inr \<lparr>scanned = map Inr pilots_rows, Err = None\<rparr>"
    by (simp add: pilots_driver_def pilots_db_def)
  have s: "scanned \<lparr>scanned = map Inr pilots_rows, Err = None\<rparr> = map Inr pilots_rows"
    by simp
  from Columns_default [OF q s] obtain columns where
    c: "Columns pilots_driver ''pilots'' = Inr columns" "length columns = length pilots_rows"
    and d: "\<forall>i < length pilots_rows.
              (column_default (pilots_rows ! i) = None \<longrightarrow> Default (columns ! i) = '''') \<and>
              (\<forall>d. column_default (pilots_rows ! i) = Some d \<longrightarrow> Default (columns ! i) = d)"
    by blast
  have l: "length pilots_rows = 2"
    by (simp add: pilots_rows_def)
  from d l have "Default (columns ! 0) = ''nextval(pilots_id_seq)''"
    by (simp add: pilots_rows_def)
  moreover from d l have "Default (columns ! 1) = ''''"
    by (simp add: pilots_rows_def)
  ultimately show ?thesis using c l by auto
qed

section \<open>Properties of the relationship texts\<close>

lemma sliceTo_1:
  "sliceTo s (Suc 0) = (if s = [] then Inl SliceBoundsOutOfRange else Inr [hd s])"
  by (cases s) (simp_all add: sliceTo_def)

lemma GetColumn_manager_id:
  "GetColumn employees ''manager_id'' =
     Some \<lparr>Column.Name = ''manager_id'', Type = ''null.Int'', DBType = ''integer'',
           Default = '''', Nullable = True, Unique = False, Validated = False\<rparr>"
  by (simp add: GetColumn_def employees_def TranslateColumnType_def)

lemma GetTable_employees: "GetTable [employees] ''employees'' = Some employees"
  by (simp add: GetTable_def employees_def)

lemma toOne_employees:
  "textsFromForeignKey inflection ''models'' [employees] employees manager_fkey =
   Inr (projr (textsFromForeignKey inflection ''models'' [employees] employees manager_fkey))"
  by code_simp

text \<open>
  Claim C5, as stated: for the table \<open>employees\<close> with the nullable self-referencing
  key on \<open>manager_id\<close>, the two to-one names and the to-many name are pairwise
  distinct. It fails: both calls succeed, and the to-one \<open>ForeignName\<close> is the to-many
  \<open>Name\<close>, since both are \<open>mkFunctionName\<close> of the same arguments.
\<close>

theorem self_reference_names_counterexample:
  "\<not> isl (textsFromForeignKey inflection ''models'' [employees] employees manager_fkey) \<and>
   \<not> isl (textsFromRelationship inflection [employees] employees manager_rel) \<and>
   \<not> distinct
     [ToOneFunction.Name (RelationshipToOneTexts.Function
        (projr (textsFromForeignKey inflection ''models'' [employees] employees manager_fkey))),
      ToOneFunction.ForeignName (RelationshipToOneTexts.Function
        (projr (textsFromForeignKey inflection ''models'' [employees] employees manager_fkey))),
      ToManyFunction.Name (RelationshipToManyTexts.Function
        (projr (textsFromRelationship inflection [employees] employees manager_rel)))]"
  by code_simp

text \<open>
  Claim C5, amended. Both calls succeed; the to-one \<open>Name\<close> is \<open>Manager\<close>, the to-one
  \<open>ForeignName\<close> and the to-many \<open>Name\<close> are the same name \<open>ManagerEmployees\<close>, and
  the name derived from the table alone is \<open>Employees\<close>: the to-one \<open>Name\<close> differs
  from the other two, and all three differ from \<open>Employees\<close>. (The to-many
  \<open>ForeignName\<close> is \<open>Manager\<close>, the to-one \<open>Name\<close> again.)
\<close>

theorem self_reference_names:
  "\<not> isl (textsFromForeignKey inflection ''models'' [employees] employees manager_fkey) \<and>
   \<not> isl (textsFromRelationship inflection [employees] employees manager_rel) \<and>
   ToOneFunction.Name (RelationshipToOneTexts.Function
     (projr (textsFromForeignKey inflection ''models'' [employees] employees manager_fkey)))
     = ''Manager'' \<and>
   ToOneFunction.ForeignName (RelationshipToOneTexts.Function
     (projr (textsFromForeignKey inflection ''models'' [employees] employees manager_fkey)))
     = ''ManagerEmployees'' \<and>
   ToManyFunction.Name (RelationshipToManyTexts.Function
     (projr (textsFromRelationship inflection [employees] employees manager_rel)))
     = ''ManagerEmployees'' \<and>
   ToManyFunction.ForeignName (RelationshipToManyTexts.Function
     (projr (textsFromRelationship inflection [employees] employees manager_rel)))
     = ''Manager'' \<and>
   TitleCase inflection (Plural inflection (Table.Name employees)) = ''Employees''"
  by code_simp

text \<open>
  Claim C6. In every result of \<open>textsFromForeignKey\<close>: when the key's column is
  nullable, \<open>LocalAssignment\<close> is the title-cased column name, a dot, and the semantic
  type of that column of the table without the prefix \<open>null.\<close>; when it is not
  nullable, \<open>LocalAssignment\<close> is the title-cased column name alone. \<open>ForeignAssignment\<close>
  is built in the same way from the foreign column, its nullability, and that column
  of the foreign table.
\<close>

theorem textsFromForeignKey_assignments:
  assumes "textsFromForeignKey sm packageName tables table fkey = Inr r"
  shows "(ForeignKey.Nullable fkey \<longrightarrow>
            (\<exists>col. GetColumn table (ForeignKey.Column fkey) = Some col \<and>
               ToOneFunction.LocalAssignment (RelationshipToOneTexts.Function r) =
                 TitleCase sm (ForeignKey.Column fkey) @ ''.''
                 @ TrimPrefix (Column.Type col) ''null.'')) \<and>
         (\<not> ForeignKey.Nullable fkey \<longrightarrow>
            ToOneFunction.LocalAssignment (RelationshipToOneTexts.Function r) =
              TitleCase sm (ForeignKey.Column fkey)) \<and>
         (ForeignKey.ForeignColumnNullable fkey \<longrightarrow>
            (\<exists>foreignTable col.
               GetTable tables (ForeignKey.ForeignTable fkey) = Some foreignTable \<and>
               GetColumn foreignTable (ForeignKey.ForeignColumn fkey) = Some col \<and>
               ToOneFunction.ForeignAssignment (RelationshipToOneTexts.Function r) =
                 TitleCase sm (ForeignKey.ForeignColumn fkey) @ ''.''
                 @ TrimPrefix (Column.Type col) ''null.'')) \<and>
         (\<not> ForeignKey.ForeignColumnNullable fkey \<longrightarrow>
            ToOneFunction.ForeignAssignment (RelationshipToOneTexts.Function r) =
              TitleCase sm (ForeignKey.ForeignColumn fkey))"
  using assms
  by (auto simp: textsFromForeignKey_def Let_def split: sum.splits option.splits if_splits)

theorem textsFromForeignKey_assignments_witness:
  "ToOneFunction.LocalAssignment (RelationshipToOneTexts.Function
     (projr (textsFromForeignKey inflection ''models'' [employees] employees manager_fkey)))
     = TitleCase inflection ''manager_id'' @ ''.Int'' \<and>
   ToOneFunction.ForeignAssignment (RelationshipToOneTexts.Function
     (projr (textsFromForeignKey inflection ''models'' [employees] employees manager_fkey)))
     = TitleCase inflection ''id''"
proof -
  have n: "ForeignKey.Nullable manager_fkey" "\<not> ForeignKey.ForeignColumnNullable manager_fkey"
    "ForeignKey.Column manager_fkey = ''manager_id''"
    "ForeignKey.ForeignColumn manager_fkey = ''id''"
    by (simp_all add: manager_fkey_def)
  have p: "TrimPrefix ''null.Int'' ''null.'' = ''Int''"
    by (simp add: TrimPrefix_def HasPrefix_def)
  from textsFromForeignKey_assignments [OF toOne_employees] n GetColumn_manager_id p
  show ?thesis
    by simp
qed

lemma ToLower_single:
  "ToLower [c] =
     (if 65 \<le> (of_char c :: nat) \<and> (of_char c :: nat) \<le> 90
        then [char_of ((of_char c :: nat) + 32)]
      else if (of_char c :: nat) < 128 then [c]
      else [CHR 0xEF, CHR 0xBF, CHR 0xBD])"
  by (simp add: ToLower_def toLowerByte_def RuneError_def)

text \<open>
  Claim C10, as stated: for every table with a non-empty name, \<open>Function.Receiver\<close>
  is the lower-cased first character of the name. It fails on a name that begins
  outside ASCII. The table of the example has a non-empty name whose first character
  is the lower-case letter encoded by the two bytes \<open>C3 A9\<close>; the call succeeds, and
  \<open>Function.Receiver\<close> is the replacement character, the three bytes \<open>EF BF BD\<close>:
  neither that character nor its first byte.
\<close>

theorem Receiver_requires_name_counterexample:
  "Table.Name eclairs \<noteq> [] \<and>
   take 2 (Table.Name eclairs) = [CHR 0xC3, CHR 0xA9] \<and>
   \<not> isl (textsFromForeignKey inflection ''models'' [eclairs, shops] eclairs eclairs_fkey) \<and>
   ToOneFunction.Receiver (RelationshipToOneTexts.Function
     (projr (textsFromForeignKey inflection ''models'' [eclairs, shops] eclairs eclairs_fkey)))
     = [CHR 0xEF, CHR 0xBF, CHR 0xBD] \<and>
   ToOneFunction.Receiver (RelationshipToOneTexts.Function
     (projr (textsFromForeignKey inflection ''models'' [eclairs, shops] eclairs eclairs_fkey)))
     \<noteq> take 2 (Table.Name eclairs) \<and>
   ToOneFunction.Receiver (RelationshipToOneTexts.Function
     (projr (textsFromForeignKey inflection ''models'' [eclairs, shops] eclairs eclairs_fkey)))
     \<noteq> take 1 (Table.Name eclairs)"
  by code_simp

text \<open>
  Claim C10, amended. On an empty table name both \<open>textsFromForeignKey\<close> and
  \<open>textsFromRelationship\<close> panic at the slice \<open>table.Name[:1]\<close>. On a non-empty name
  the slice never panics, and on a schema graph that holds the columns and the foreign
  table that the call looks up for its nullable columns (as the data model requires of
  every key) the call succeeds; \<open>Function.Receiver\<close> is then \<open>strings.ToLower\<close> of the
  first byte of the name: the lower-case letter for a byte from \<open>A\<close> to \<open>Z\<close>, the byte
  itself for any other ASCII byte, and the replacement character \<open>U+FFFD\<close> for a byte
  from 128 on.
\<close>

theorem Receiver_requires_name:
  "(Table.Name table = [] \<longrightarrow>
      textsFromForeignKey sm packageName tables table fkey = Inl SliceBoundsOutOfRange \<and>
      textsFromRelationship sm tables table rel = Inl SliceBoundsOutOfRange) \<and>
   (Table.Name table \<noteq> [] \<longrightarrow>
      textsFromForeignKey sm packageName tables table fkey \<noteq> Inl SliceBoundsOutOfRange \<and>
      textsFromRelationship sm tables table rel \<noteq> Inl SliceBoundsOutOfRange) \<and>
   (Table.Name table \<noteq> [] \<longrightarrow>
      (ForeignKey.Nullable fkey \<longrightarrow> GetColumn table (ForeignKey.Column fkey) \<noteq> None) \<longrightarrow>
      (ForeignKey.ForeignColumnNullable fkey \<longrightarrow>
         (\<exists>foreignTable. GetTable tables (ForeignKey.ForeignTable fkey) = Some foreignTable \<and>
            GetColumn foreignTable (ForeignKey.ForeignColumn fkey) \<noteq> None)) \<longrightarrow>
      (\<exists>r. textsFromForeignKey sm packageName tables table fkey = Inr r \<and>
         ToOneFunction.Receiver (RelationshipToOneTexts.Function r) =
           (if 65 \<le> (of_char (hd (Table.Name table)) :: nat) \<and>
               (of_char (hd (Table.Name table)) :: nat) \<le> 90
              then [char_of ((of_char (hd (Table.Name table)) :: nat) + 32)]
            else if (of_char (hd (Table.Name table)) :: nat) < 128
              then [hd (Table.Name table)]
            else [CHR 0xEF, CHR 0xBF, CHR 0xBD]))) \<and>
   (Table.Name table \<noteq> [] \<longrightarrow>
      (ToManyRelationship.Nullable rel \<longrightarrow>
         GetColumn table (ToManyRelationship.Column rel) \<noteq> None) \<longrightarrow>
      (ToManyRelationship.ForeignColumnNullable rel \<longrightarrow>
         (\<exists>foreignTable.
            GetTable tables (ToManyRelationship.ForeignTable rel) = Some foreignTable \<and>
            GetColumn foreignTable (ToManyRelationship.ForeignColumn rel) \<noteq> None)) \<longrightarrow>
      (\<exists>m. textsFromRelationship sm tables table rel = Inr m \<and>
         ToManyFunction.Receiver (RelationshipToManyTexts.Function m) =
           (if 65 \<le> (of_char (hd (Table.Name table)) :: nat) \<and>
               (of_char (hd (Table.Name table)) :: nat) \<le> 90
              then [char_of ((of_char (hd (Table.Name table)) :: nat) + 32)]
            else if (of_char (hd (Table.Name table)) :: nat) < 128
              then [hd (Table.Name table)]
            else [CHR 0xEF, CHR 0xBF, CHR 0xBD])))"
proof (intro conjI)
  show "Table.Name table = [] \<longrightarrow>
      textsFromForeignKey sm packageName tables table fkey = Inl SliceBoundsOutOfRange \<and>
      textsFromRelationship sm tables table rel = Inl SliceBoundsOutOfRange"
    by (simp add: textsFromForeignKey_def textsFromRelationship_def sliceTo_1 Let_def)
  show "Table.Name table \<noteq> [] \<longrightarrow>
      textsFromForeignKey sm packageName tables table fkey \<noteq> Inl SliceBoundsOutOfRange \<and>
      textsFromRelationship sm tables table rel \<noteq> Inl SliceBoundsOutOfRange"
    by (simp add: textsFromForeignKey_def textsFromRelationship_def sliceTo_1 Let_def
        split: option.splits)
  have one: "Table.Name table \<noteq> [] \<longrightarrow>
      (ForeignKey.Nullable fkey \<longrightarrow> GetColumn table (ForeignKey.Column fkey) \<noteq> None) \<longrightarrow>
      (ForeignKey.ForeignColumnNullable fkey \<longrightarrow>
         (\<exists>foreignTable. GetTable tables (ForeignKey.ForeignTable fkey) = Some foreignTable \<and>
            GetColumn foreignTable (ForeignKey.ForeignColumn fkey) \<noteq> None)) \<longrightarrow>
      (\<exists>r. textsFromForeignKey sm packageName tables table fkey = Inr r \<and>
         ToOneFunction.Receiver (RelationshipToOneTexts.Function r) =
           ToLower [hd (Table.Name table)])"
    by (auto simp: textsFromForeignKey_def sliceTo_1 Let_def)
  then show "Table.Name table \<noteq> [] \<longrightarrow>
      (ForeignKey.Nullable fkey \<longrightarrow> GetColumn table (ForeignKey.Column fkey) \<noteq> None) \<longrightarrow>
      (ForeignKey.ForeignColumnNullable fkey \<longrightarrow>
         (\<exists>foreignTable. GetTable tables (ForeignKey.ForeignTable fkey) = Some foreignTable \<and>
            GetColumn foreignTable (ForeignKey.ForeignColumn fkey) \<noteq> None)) \<longrightarrow>
      (\<exists>r. textsFromForeignKey sm packageName tables table fkey = Inr r \<and>
         ToOneFunction.Receiver (RelationshipToOneTexts.Function r) =
           (if 65 \<le> (of_char (hd (Table.Name table)) :: nat) \<and>
               (of_char (hd (Table.Name table)) :: nat) \<le> 90
              then [char_of ((of_char (hd (Table.Name table)) :: nat) + 32)]
            else if (of_char (hd (Table.Name table)) :: nat) < 128
              then [hd (Table.Name table)]
            else [CHR 0xEF, CHR 0xBF, CHR 0xBD]))"
    unfolding ToLower_single .
  have many: "Table.Name table \<noteq> [] \<longrightarrow>
      (ToManyRelationship.Nullable rel \<longrightarrow>
         GetColumn table (ToManyRelationship.Column rel) \<noteq> None) \<longrightarrow>
      (ToManyRelationship.ForeignColumnNullable rel \<longrightarrow>
         (\<exists>foreignTable.
            GetTable tables (ToManyRelationship.ForeignTable rel) = Some foreignTable \<and>
            GetColumn foreignTable (ToManyRelationship.ForeignColumn rel) \<noteq> None)) \<longrightarrow>
      (\<exists>m. textsFromRelationship sm tables table rel = Inr m \<and>
         ToManyFunction.Receiver (RelationshipToManyTexts.Function m) =
           ToLower [hd (Table.Name table)])"
    by (auto simp: textsFromRelationship_def sliceTo_1 Let_def)
  then show "Table.Name table \<noteq> [] \<longrightarrow>
      (ToManyRelationship.Nullable rel \<longrightarrow>
         GetColumn table (ToManyRelationship.Column rel) \<noteq> None) \<longrightarrow>
      (ToManyRelationship.ForeignColumnNullable rel \<longrightarrow>
         (\<exists>foreignTable.
            GetTable tables (ToManyRelationship.ForeignTable rel) = Some foreignTable \<and>
            GetColumn foreignTable (ToManyRelationship.ForeignColumn rel) \<noteq> None)) \<longrightarrow>
      (\<exists>m. textsFromRelationship sm tables table rel = Inr m \<and>
         ToManyFunction.Receiver (RelationshipToManyTexts.Function m) =
           (if 65 \<le> (of_char (hd (Table.Name table)) :: nat) \<and>
               (of_char (hd (Table.Name table)) :: nat) \<le> 90
              then [char_of ((of_char (hd (Table.Name table)) :: nat) + 32)]
            else if (of_char (hd (Table.Name table)) :: nat) < 128
              then [hd (Table.Name table)]
            else [CHR 0xEF, CHR 0xBF, CHR 0xBD]))"
    unfolding ToLower_single .
qed

lemma char_of_115: "char_of (115 :: nat) = CHR ''s''"
  by code_simp

theorem Receiver_requires_name_witness:
  "Table.Name shops \<noteq> [] \<and>
   (\<exists>m. textsFromRelationship inflection [eclairs, shops] shops shops_rel = Inr m \<and>
      ToManyFunction.Receiver (RelationshipToManyTexts.Function m) = ''s'') \<and>
   Table.Name employees \<noteq> [] \<and>
   (\<exists>r. textsFromForeignKey inflection ''models'' [employees] employees manager_fkey = Inr r \<and>
      ToOneFunction.Receiver (RelationshipToOneTexts.Function r) = ''e'') \<and>
   (\<exists>m. textsFromRelationship inflection [employees] employees manager_rel = Inr m \<and>
      ToManyFunction.Receiver (RelationshipToManyTexts.Function m) = ''e'') \<and>
   Table.Name eclairs \<noteq> [] \<and>
   (\<exists>r. textsFromForeignKey inflection ''models'' [eclairs, shops] eclairs eclairs_fkey = Inr r \<and>
      ToOneFunction.Receiver (RelationshipToOneTexts.Function r) =
        [CHR 0xEF, CHR 0xBF, CHR 0xBD]) \<and>
   Table.Name (employees\<lparr>Table.Name := ''''\<rparr>) = [] \<and>
   textsFromForeignKey inflection ''models'' [employees]
     (employees\<lparr>Table.Name := ''''\<rparr>) manager_fkey = Inl SliceBoundsOutOfRange \<and>
   textsFromRelationship inflection [employees]
     (employees\<lparr>Table.Name := ''''\<rparr>) manager_rel = Inl SliceBoundsOutOfRange"
proof -
  have name: "Table.Name employees = ''employees''" "Table.Name shops = ''Shops''"
    "Table.Name eclairs = eclairs_name" "eclairs_name \<noteq> []"
    by (simp_all add: employees_def shops_def eclairs_def eclairs_name_def)
  have fk: "ForeignKey.Nullable manager_fkey" "\<not> ForeignKey.ForeignColumnNullable manager_fkey"
    "ForeignKey.Column manager_fkey = ''manager_id''"
    "\<not> ForeignKey.Nullable eclairs_fkey" "\<not> ForeignKey.ForeignColumnNullable eclairs_fkey"
    by (simp_all add: manager_fkey_def eclairs_fkey_def)
  have rel: "\<not> ToManyRelationship.Nullable manager_rel"
    "ToManyRelationship.ForeignColumnNullable manager_rel"
    "ToManyRelationship.ForeignTable manager_rel = ''employees''"
    "ToManyRelationship.ForeignColumn manager_rel = ''manager_id''"
    "\<not> ToManyRelationship.Nullable shops_rel"
    "\<not> ToManyRelationship.ForeignColumnNullable shops_rel"
    by (simp_all add: manager_rel_def shops_rel_def)
  from Receiver_requires_name
      [of shops inflection "''models''" "[eclairs, shops]" eclairs_fkey shops_rel]
  have a: "\<exists>m. textsFromRelationship inflection [eclairs, shops] shops shops_rel = Inr m \<and>
      ToManyFunction.Receiver (RelationshipToManyTexts.Function m) = ''s''"
    by (simp add: name rel char_of_115)
  from Receiver_requires_name
      [of employees inflection "''models''" "[employees]" manager_fkey manager_rel]
  have b: "(\<exists>r. textsFromForeignKey inflection ''models'' [employees] employees manager_fkey = Inr r \<and>
      ToOneFunction.Receiver (RelationshipToOneTexts.Function r) = ''e'') \<and>
   (\<exists>m. textsFromRelationship inflection [employees] employees manager_rel = Inr m \<and>
      ToManyFunction.Receiver (RelationshipToManyTexts.Function m) = ''e'')"
    by (simp add: name fk rel GetColumn_manager_id GetTable_employees)
  from Receiver_requires_name
      [of eclairs inflection "''models''" "[eclairs, shops]" eclairs_fkey shops_rel]
  have c: "\<exists>r. textsFromForeignKey inflection ''models'' [eclairs, shops] eclairs eclairs_fkey = Inr r \<and>
      ToOneFunction.Receiver (RelationshipToOneTexts.Function r) =
        [CHR 0xEF, CHR 0xBF, CHR 0xBD]"
    by (simp add: name fk eclairs_name_def)
  from Receiver_requires_name
      [of "employees\<lparr>Table.Name := ''''\<rparr>" inflection "''models''" "[employees]"
        manager_fkey manager_rel]
  have d: "textsFromForeignKey inflection ''models'' [employees]
       (employees\<lparr>Table.Name := ''''\<rparr>) manager_fkey = Inl SliceBoundsOutOfRange \<and>
     textsFromRelationship inflection [employees]
       (employees\<lparr>Table.Name := ''''\<rparr>) manager_rel = Inl SliceBoundsOutOfRange"
    by simp
  from a b c d name show ?thesis
    by simp
qed

end
